theory Spec2Isabelle
  imports Complex_Main "HOL-Library.Multiset"
begin

section \<open>Values exchanged with the enumeration tool\<close>

text \<open>
  The main process reads the tool's standard output with \<^verbatim>\<open>JSON.parse\<close>. The
  TypeScript annotation \<^verbatim>\<open>const rawOutput: RawCliOutput = JSON.parse(stdout)\<close> is erased
  at run time, so the value that reaches the transformation is any JSON value. \<open>jsval\<close>
  is the JavaScript value universe the code can meet on this path: the JSON values, and
  \<^verbatim>\<open>undefined\<close>, which a read of a missing property produces.
  Numbers are the (finite) numeric value of the literal. An object is the list of its
  own properties, each key once, as \<^verbatim>\<open>JSON.parse\<close> builds it.
\<close>

datatype jsval =
    JUndefined
  | JNull
  | JBool bool
  | JNum rat
  | JStr string
  | JArr "jsval list"
  | JObj "(string \<times> jsval) list"

text \<open>JavaScript's ToBoolean on these values: the operand of \<^verbatim>\<open>? :\<close> and \<^verbatim>\<open>||\<close>.\<close>

fun truthy :: "jsval \<Rightarrow> bool" where
  "truthy JUndefined = False"
| "truthy JNull = False"
| "truthy (JBool b) = b"
| "truthy (JNum r) = (r \<noteq> 0)"
| "truthy (JStr s) = (s \<noteq> [])"
| "truthy (JArr xs) = True"
| "truthy (JObj kvs) = True"

text \<open>
  A property read \<^verbatim>\<open>v.k\<close>. On \<^verbatim>\<open>undefined\<close> and \<^verbatim>\<open>null\<close> it throws a TypeError
  (\<open>nullish\<close>); on an object it yields the own property or \<^verbatim>\<open>undefined\<close>; on a
  string, number, boolean or array it yields \<^verbatim>\<open>undefined\<close> for every key this program
  reads from data (\<^verbatim>\<open>path name is_dir is_symlink size modified permissions\<close>), none of
  which is a property of those prototypes.
\<close>

datatype js_exception = SyntaxError | TypeError

fun nullish :: "jsval \<Rightarrow> bool" where
  "nullish JUndefined = True"
| "nullish JNull = True"
| "nullish v = False"

fun own_props :: "jsval \<Rightarrow> (string \<times> jsval) list" where
  "own_props (JObj kvs) = kvs"
| "own_props v = []"

definition get_prop :: "jsval \<Rightarrow> string \<Rightarrow> jsval" where
  "get_prop v k = (case map_of (own_props v) k of Some x \<Rightarrow> x | None \<Rightarrow> JUndefined)"

section \<open>The entry model of the main process\<close>

text \<open>
  \<^verbatim>\<open>interface RawFileEntry\<close>: what the tool is documented to emit for one entry. The
  optional fields are \<open>None\<close> when the key is absent.
\<close>

record RawFileEntry =
  r_name :: string
  r_size :: nat
  r_modified :: string
  is_dir :: bool
  is_symlink :: bool
  r_permissions :: "string option"
  file_type :: "string option"

text \<open>The JSON object that carries a \<open>RawFileEntry\<close>.\<close>

definition optional_key :: "string \<Rightarrow> string option \<Rightarrow> (string \<times> jsval) list" where
  "optional_key k v = (case v of None \<Rightarrow> [] | Some s \<Rightarrow> [(k, JStr s)])"

definition raw_json :: "RawFileEntry \<Rightarrow> jsval" where
  "raw_json r = JObj ([(''name'', JStr (r_name r)),
                      (''size'', JNum (of_nat (r_size r))),
                      (''modified'', JStr (r_modified r)),
                      (''is_dir'', JBool (is_dir r)),
                      (''is_symlink'', JBool (is_symlink r))]
                     @ optional_key ''permissions'' (r_permissions r)
                     @ optional_key ''file_type'' (file_type r))"

text \<open>
  \<^verbatim>\<open>interface TransformedEntry\<close>. The field \<^verbatim>\<open>type\<close> is one of three string literals,
  chosen by the code itself; the other fields are copied from the parsed value, whatever
  it holds.
\<close>

datatype entry_type = File | Directory | Symlink

record TransformedEntry =
  t_name :: jsval
  t_type :: entry_type
  t_size :: jsval
  t_modified :: jsval
  t_permissions :: jsval

record TransformedOutput =
  t_path :: jsval
  t_entries :: "TransformedEntry list"

text \<open>
  The callback of \<^verbatim>\<open>rawOutput.entries.map(entry => ({...}))\<close>. Its first property read,
  \<^verbatim>\<open>entry.name\<close>, throws when the element is \<^verbatim>\<open>null\<close>; nothing else in it can throw.
\<close>

definition transform_entry :: "jsval \<Rightarrow> js_exception + TransformedEntry" where
  "transform_entry entry =
     (if nullish entry then Inl TypeError
      else Inr \<lparr> t_name = get_prop entry ''name'',
                 t_type = (if truthy (get_prop entry ''is_dir'') then Directory
                           else if truthy (get_prop entry ''is_symlink'') then Symlink
                           else File),
                 t_size = get_prop entry ''size'',
                 t_modified = get_prop entry ''modified'',
                 t_permissions = (if truthy (get_prop entry ''permissions'')
                                  then get_prop entry ''permissions'' else JStr ''-'') \<rparr>)"

section \<open>Spawning the tool\<close>

text \<open>
  What \<^verbatim>\<open>getXlsPath\<close> reads from the host: \<^verbatim>\<open>app.isPackaged\<close>, \<^verbatim>\<open>process.platform\<close>,
  \<^verbatim>\<open>__dirname\<close>, \<^verbatim>\<open>process.resourcesPath\<close> and Node's \<^verbatim>\<open>path.join\<close>.
\<close>

record host =
  isPackaged :: bool
  platform :: string
  dirname :: string
  resourcesPath :: string
  path_join :: "string list \<Rightarrow> string"

definition getXlsPath :: "host \<Rightarrow> string" where
  "getXlsPath h =
     (let isDev = \<not> isPackaged h;
          ext = (if platform h = ''win32'' then ''.exe'' else '''')
      in if isDev then path_join h [dirname h, ''../../bin'', ''xls'' @ ext]
         else path_join h [resourcesPath h, ''bin'', ''xls'' @ ext])"

text \<open>
  The repository holds a second main-process file with its own \<^verbatim>\<open>getXlsPath\<close> and
  \<^verbatim>\<open>listDirectory\<close> (the unnamed source file whose \<^verbatim>\<open>listDirectory\<close> resolves the raw
  \<^verbatim>\<open>JSON.parse\<close> result). Its definitions carry the suffix \<open>_raw\<close>.
\<close>

definition getXlsPath_raw :: "host \<Rightarrow> string" where
  "getXlsPath_raw h =
     (let isDev = \<not> isPackaged h
      in if isDev then ''xls''
         else let ext = (if platform h = ''win32'' then ''.exe'' else '''')
              in path_join h [resourcesPath h, ''bin'', ''xls'' @ ext])"

text \<open>
  One call of \<^verbatim>\<open>child_process.spawn(command, args)\<close>, and the argument list of the
  documented contract: \<^verbatim>\<open>--format json -a -l <directory-path>\<close>.
\<close>

record spawn_call =
  command :: string
  args :: "string list"

definition cli_contract :: "string \<Rightarrow> string list" where
  "cli_contract dirPath = [''--format'', ''json'', ''-a'', ''-l'', dirPath]"

section \<open>The promise returned by listDirectory\<close>

text \<open>
  A promise is pending until the first call of \<^verbatim>\<open>resolve\<close> or \<^verbatim>\<open>reject\<close>; later calls
  change nothing. Every rejection in this program is \<^verbatim>\<open>new Error(message)\<close>: the rejected
  value is modelled by its message.
\<close>

datatype ('e, 'a) promise = Pending | Resolved 'a | Rejected 'e

text \<open>
  What the child process does, as the events Node delivers to the four listeners:
  chunks on \<^verbatim>\<open>stdout\<close> and \<^verbatim>\<open>stderr\<close>, \<^verbatim>\<open>close\<close> with the exit code (\<^verbatim>\<open>null\<close>, here
  \<open>None\<close>, when a signal ended the process) and \<^verbatim>\<open>error\<close> with the cause's message.
\<close>

datatype child_event =
    Stdout_data string
  | Stderr_data string
  | Close "int option"
  | Error string

text \<open>
  The variables of one executor run: the log of spawn calls, the two accumulators and
  the promise being settled.
\<close>

record 'a exec =
  spawned :: "spawn_call list"
  stdout :: string
  stderr :: string
  settled :: "(string, 'a) promise"

definition settle :: "(string, 'a) promise \<Rightarrow> 'a exec \<Rightarrow> 'a exec" where
  "settle r s = (if settled s = Pending then s\<lparr> settled := r \<rparr> else s)"

text \<open>The template literal \<^verbatim>\<open>${code}\<close> for an exit code: decimal digits, or \<^verbatim>\<open>null\<close>.\<close>

fun decimal :: "nat \<Rightarrow> string" where
  "decimal n = (if n < 10 then [''0123456789'' ! n]
                else decimal (n div 10) @ [''0123456789'' ! (n mod 10)])"

definition code_text :: "int option \<Rightarrow> string" where
  "code_text code =
     (case code of
        None \<Rightarrow> ''null''
      | Some i \<Rightarrow> (if i < 0 then ''-'' @ decimal (nat (- i)) else decimal (nat i)))"

text \<open>
  \<^verbatim>\<open>JSON.parse\<close> is the platform's; it is a parameter of the model, \<open>None\<close> standing for
  the SyntaxError it throws.
\<close>

type_synonym json_parser = "string \<Rightarrow> jsval option"

text \<open>
  \<^verbatim>\<open>Array.prototype.map\<close> with a callback that may throw: the first exception ends it.
\<close>

fun map_throwing :: "('elem \<Rightarrow> 'exn + 'res) \<Rightarrow> 'elem list \<Rightarrow> 'exn + 'res list" where
  "map_throwing f [] = Inr []"
| "map_throwing f (x # xs) =
     (case f x of
        Inl thrown \<Rightarrow> Inl thrown
      | Inr y \<Rightarrow> map_sum id (Cons y) (map_throwing f xs))"

text \<open>
  \<^verbatim>\<open>rawOutput.entries.map(...)\<close> followed by \<^verbatim>\<open>resolve({path: rawOutput.path, entries})\<close>.
  The method call needs \<^verbatim>\<open>rawOutput.entries\<close> to be an array: \<^verbatim>\<open>rawOutput\<close> being
  \<^verbatim>\<open>null\<close>, the key missing, or its value a string, number, boolean, \<^verbatim>\<open>null\<close> or object
  (whose \<^verbatim>\<open>map\<close>, if any, is data and not callable) all end in a TypeError; so does an
  array as \<^verbatim>\<open>rawOutput\<close>, whose \<^verbatim>\<open>entries\<close> is a built-in function without \<^verbatim>\<open>map\<close>,
  and a string, number or boolean, where \<^verbatim>\<open>entries\<close> is \<^verbatim>\<open>undefined\<close>.
\<close>

definition transform :: "jsval \<Rightarrow> js_exception + TransformedOutput" where
  "transform rawOutput =
     (case rawOutput of
        JObj kvs \<Rightarrow>
          (case get_prop rawOutput ''entries'' of
             JArr es \<Rightarrow>
               (case map_throwing transform_entry es of
                  Inl e \<Rightarrow> Inl e
                | Inr transformedEntries \<Rightarrow>
                    Inr \<lparr> t_path = get_prop rawOutput ''path'',
                          t_entries = transformedEntries \<rparr>)
           | _ \<Rightarrow> Inl TypeError)
      | _ \<Rightarrow> Inl TypeError)"

text \<open>
  The \<^verbatim>\<open>close\<close> listener: the \<^verbatim>\<open>try\<close> block holds both \<^verbatim>\<open>JSON.parse\<close> and the
  transformation, and the \<^verbatim>\<open>catch\<close> rejects whatever was thrown.
\<close>

definition on_close ::
    "json_parser \<Rightarrow> int option \<Rightarrow> string \<Rightarrow> string \<Rightarrow> (string, TransformedOutput) promise" where
  "on_close parse code out err =
     (if code = Some 0 then
        (case parse out of
           None \<Rightarrow> Rejected (''Failed to parse JSON: '' @ out)
         | Some rawOutput \<Rightarrow>
             (case transform rawOutput of
                Inl e \<Rightarrow> Rejected (''Failed to parse JSON: '' @ out)
              | Inr output \<Rightarrow> Resolved output))
      else Rejected (''xls exited with code '' @ code_text code @ '': '' @ err))"

text \<open>The \<^verbatim>\<open>close\<close> listener of the second main-process file resolves the parsed value as it is.\<close>

definition on_close_raw ::
    "json_parser \<Rightarrow> int option \<Rightarrow> string \<Rightarrow> string \<Rightarrow> (string, jsval) promise" where
  "on_close_raw parse code out err =
     (if code = Some 0 then
        (case parse out of
           None \<Rightarrow> Rejected (''Failed to parse JSON: '' @ out)
         | Some v \<Rightarrow> Resolved v)
      else Rejected (''xls exited with code '' @ code_text code @ '': '' @ err))"

text \<open>The four listeners, dispatched on the event; \<open>closing\<close> is the \<^verbatim>\<open>close\<close> listener.\<close>

fun on_event ::
    "(int option \<Rightarrow> string \<Rightarrow> string \<Rightarrow> (string, 'a) promise) \<Rightarrow> 'a exec \<Rightarrow> child_event \<Rightarrow> 'a exec" where
  "on_event closing s (Stdout_data d) = s\<lparr> stdout := stdout s @ d \<rparr>"
| "on_event closing s (Stderr_data d) = s\<lparr> stderr := stderr s @ d \<rparr>"
| "on_event closing s (Close code) = settle (closing code (stdout s) (stderr s)) s"
| "on_event closing s (Error msg) = settle (Rejected (''Failed to spawn xls: '' @ msg)) s"

text \<open>
  \<^verbatim>\<open>listDirectory(dirPath)\<close>: the executor spawns the tool once, with empty accumulators,
  and the listeners then run on the events of that child, in order. \<open>child\<close> is the
  operating system: the events a spawn call leads to.
\<close>

definition executor :: "spawn_call \<Rightarrow> 'a exec" where
  "executor c = \<lparr> spawned = [c], stdout = '''', stderr = '''', settled = Pending \<rparr>"

definition listDirectory ::
    "json_parser \<Rightarrow> (spawn_call \<Rightarrow> child_event list) \<Rightarrow> host \<Rightarrow> string \<Rightarrow> TransformedOutput exec" where
  "listDirectory parse child h dirPath =
     (let c = \<lparr> command = getXlsPath h, args = [''--format'', ''json'', ''-a'', ''-l'', dirPath] \<rparr>
      in foldl (on_event (on_close parse)) (executor c) (child c))"

definition listDirectory_raw ::
    "json_parser \<Rightarrow> (spawn_call \<Rightarrow> child_event list) \<Rightarrow> host \<Rightarrow> string \<Rightarrow> jsval exec" where
  "listDirectory_raw parse child h dirPath =
     (let c = \<lparr> command = getXlsPath_raw h, args = [''--json'', ''-a'', ''-l'', dirPath] \<rparr>
      in foldl (on_event (on_close_raw parse)) (executor c) (child c))"

text \<open>
  The documented shape of the tool's output, read off \<^verbatim>\<open>interface RawFileEntry\<close> and
  \<^verbatim>\<open>interface RawCliOutput\<close>: the predicate a run-time check of those interfaces would
  compute. (The code has no such check.)
\<close>

fun is_string :: "jsval \<Rightarrow> bool" where
  "is_string (JStr s) = True"
| "is_string v = False"

fun is_number :: "jsval \<Rightarrow> bool" where
  "is_number (JNum r) = True"
| "is_number v = False"

fun is_boolean :: "jsval \<Rightarrow> bool" where
  "is_boolean (JBool b) = True"
| "is_boolean v = False"

fun is_object :: "jsval \<Rightarrow> bool" where
  "is_object (JObj kvs) = True"
| "is_object v = False"

definition optional_string :: "jsval \<Rightarrow> bool" where
  "optional_string v = (v = JUndefined \<or> is_string v)"

definition conforms_RawFileEntry :: "jsval \<Rightarrow> bool" where
  "conforms_RawFileEntry v =
     (is_object v
      \<and> is_string (get_prop v ''name'')
      \<and> is_number (get_prop v ''size'')
      \<and> is_string (get_prop v ''modified'')
      \<and> is_boolean (get_prop v ''is_dir'')
      \<and> is_boolean (get_prop v ''is_symlink'')
      \<and> optional_string (get_prop v ''permissions'')
      \<and> optional_string (get_prop v ''file_type''))"

definition conforms_RawCliOutput :: "jsval \<Rightarrow> bool" where
  "conforms_RawCliOutput v =
     (is_object v
      \<and> is_string (get_prop v ''path'')
      \<and> is_number (get_prop v ''total'')
      \<and> (case get_prop v ''entries'' of
            JArr es \<Rightarrow> list_all conforms_RawFileEntry es
          | _ \<Rightarrow> False))"

text \<open>
  What the transformation needs of the parsed value in order not to throw: an object
  whose \<^verbatim>\<open>entries\<close> is an array without \<^verbatim>\<open>null\<close> elements.
\<close>

definition has_entries_array :: "jsval \<Rightarrow> bool" where
  "has_entries_array v =
     (is_object v
      \<and> (case get_prop v ''entries'' of
            JArr es \<Rightarrow> list_all (\<lambda>e. \<not> nullish e) es
          | _ \<Rightarrow> False))"

text \<open>The data events before the child closes, and what they add to the accumulators.\<close>

fun is_data :: "child_event \<Rightarrow> bool" where
  "is_data (Stdout_data d) = True"
| "is_data (Stderr_data d) = True"
| "is_data e = False"

fun stdout_text :: "child_event list \<Rightarrow> string" where
  "stdout_text [] = ''''"
| "stdout_text (Stdout_data d # es) = d @ stdout_text es"
| "stdout_text (e # es) = stdout_text es"

fun stderr_text :: "child_event list \<Rightarrow> string" where
  "stderr_text [] = ''''"
| "stderr_text (Stderr_data d # es) = d @ stderr_text es"
| "stderr_text (e # es) = stderr_text es"

section \<open>The renderer\<close>

text \<open>
  \<^verbatim>\<open>interface FileEntry\<close> and \<^verbatim>\<open>interface DirectoryListing\<close>, as the renderer declares
  what \<^verbatim>\<open>window.electronAPI.listDirectory\<close> resolves to.
\<close>

record FileEntry =
  e_name :: string
  e_type :: entry_type
  e_size :: nat
  e_modified :: string
  e_permissions :: string

record DirectoryListing =
  path :: string
  entries :: "FileEntry list"

text \<open>
  What \<^verbatim>\<open>container.innerHTML\<close> shows: the loading notice, one row per entry in display
  order, the empty-directory notice, or an error text. A row is modelled by its entry;
  the markup made from it (icon, size and date text) is left out.
\<close>

datatype view =
    Loading
  | Tree "FileEntry list"
  | Empty_directory
  | Error_view string

text \<open>
  The module's three variables, the three DOM nodes it writes, and the arguments of its
  calls of \<^verbatim>\<open>window.electronAPI.listDirectory\<close> so far. A path argument is a
  \<open>string option\<close>: \<open>None\<close> is \<^verbatim>\<open>undefined\<close>, which an out-of-range read of
  \<^verbatim>\<open>navigationHistory\<close> yields.
\<close>

record renderer =
  currentPath :: string
  navigationHistory :: "string list"
  historyIndex :: int
  container :: view
  pathDisplay :: "string option"
  btnBack_disabled :: bool
  requested :: "string option list"

text \<open>
  \<^verbatim>\<open>window.electronAPI.listDirectory\<close>: for each requested path, how the promise
  settles, if it does. A rejection is modelled by the text \<^verbatim>\<open>${err}\<close> prints.
\<close>

type_synonym api = "string option \<Rightarrow> (string, DirectoryListing) promise"

text \<open>\<^verbatim>\<open>xs[i]\<close> and \<^verbatim>\<open>xs.slice(0, e)\<close> on a JavaScript array.\<close>

definition js_index :: "'a list \<Rightarrow> int \<Rightarrow> 'a option" where
  "js_index xs i = (if 0 \<le> i \<and> i < int (length xs) then Some (xs ! nat i) else None)"

definition slice_from_0 :: "'a list \<Rightarrow> int \<Rightarrow> 'a list" where
  "slice_from_0 xs e =
     (let len = int (length xs);
          k = (if e < 0 then max (len + e) 0 else min e len)
      in take (nat k) xs)"

text \<open>
  The comparison function handed to \<^verbatim>\<open>sort\<close>. \<^verbatim>\<open>String.prototype.localeCompare\<close> is
  the host's collation and a parameter of the model.
\<close>

definition compare_entries :: "(string \<Rightarrow> string \<Rightarrow> int) \<Rightarrow> FileEntry \<Rightarrow> FileEntry \<Rightarrow> int" where
  "compare_entries localeCompare a b =
     (if e_type a = Directory \<and> e_type b \<noteq> Directory then - 1
      else if e_type a \<noteq> Directory \<and> e_type b = Directory then 1
      else localeCompare (e_name a) (e_name b))"

text \<open>
  \<^verbatim>\<open>Array.prototype.sort\<close> is a stable sort: of two elements that compare equal, the
  one that came first stays first. For a consistent comparison function the result is
  the one ordered arrangement with that property, which this insertion from the right
  computes; for any other function the language leaves the order to the implementation.
\<close>

fun insert_by :: "('a \<Rightarrow> 'a \<Rightarrow> int) \<Rightarrow> 'a \<Rightarrow> 'a list \<Rightarrow> 'a list" where
  "insert_by cmp x [] = [x]"
| "insert_by cmp x (y # ys) = (if cmp x y \<le> 0 then x # y # ys else y # insert_by cmp x ys)"

definition array_sort :: "('a \<Rightarrow> 'a \<Rightarrow> int) \<Rightarrow> 'a list \<Rightarrow> 'a list" where
  "array_sort cmp xs = foldr (insert_by cmp) xs []"

text \<open>
  \<^verbatim>\<open>loadDirectory(path, addToHistory)\<close> in three parts: the statements up to the
  call that is awaited, the rest of the \<^verbatim>\<open>try\<close> block, and the \<^verbatim>\<open>catch\<close> block. A
  promise that never settles leaves the function suspended at the \<^verbatim>\<open>await\<close>.
\<close>

definition before_await :: "string option \<Rightarrow> renderer \<Rightarrow> renderer" where
  "before_await p s =
     s\<lparr> container := Loading, pathDisplay := p, requested := requested s @ [p] \<rparr>"

definition record_visit :: "renderer \<Rightarrow> renderer" where
  "record_visit s =
     (let s1 = s\<lparr> navigationHistory := slice_from_0 (navigationHistory s) (historyIndex s + 1) \<rparr>;
          s2 = s1\<lparr> navigationHistory := navigationHistory s1 @ [currentPath s1] \<rparr>
      in s2\<lparr> historyIndex := int (length (navigationHistory s2)) - 1 \<rparr>)"

definition after_await ::
    "(string \<Rightarrow> string \<Rightarrow> int) \<Rightarrow> bool \<Rightarrow> DirectoryListing \<Rightarrow> renderer \<Rightarrow> renderer" where
  "after_await localeCompare addToHistory listing s =
     (let s1 = s\<lparr> currentPath := path listing \<rparr>;
          s2 = s1\<lparr> pathDisplay := Some (currentPath s1) \<rparr>;
          s3 = (if addToHistory then record_visit s2 else s2);
          s4 = s3\<lparr> btnBack_disabled := (historyIndex s3 \<le> 0) \<rparr>;
          sorted = array_sort (compare_entries localeCompare) (entries listing)
      in s4\<lparr> container := (if length sorted = 0 then Empty_directory else Tree sorted) \<rparr>)"

definition on_catch :: "string \<Rightarrow> renderer \<Rightarrow> renderer" where
  "on_catch err s = s\<lparr> container := Error_view (''Error: '' @ err) \<rparr>"

definition loadDirectory ::
    "api \<Rightarrow> (string \<Rightarrow> string \<Rightarrow> int) \<Rightarrow> string option \<Rightarrow> bool \<Rightarrow> renderer \<Rightarrow> renderer" where
  "loadDirectory listDir localeCompare p addToHistory s =
     (let s0 = before_await p s
      in case listDir p of
           Pending \<Rightarrow> s0
         | Resolved listing \<Rightarrow> after_await localeCompare addToHistory listing s0
         | Rejected err \<Rightarrow> on_catch err s0)"

text \<open>
  The click handlers of the four buttons, and the double click on a directory row. Each
  handler is modelled with the load it starts run to its end (or suspended for good):
  the handlers do not await \<^verbatim>\<open>loadDirectory\<close>, and loads that overlap in time are not
  modelled. \<open>home\<close> is what \<^verbatim>\<open>getHomeDirectory()\<close> resolved to; the load at start-up
  is the same call as the Home handler's.
\<close>

definition btnBack_click :: "api \<Rightarrow> (string \<Rightarrow> string \<Rightarrow> int) \<Rightarrow> renderer \<Rightarrow> renderer" where
  "btnBack_click listDir localeCompare s =
     (if historyIndex s > 0 then
        (let s1 = s\<lparr> historyIndex := historyIndex s - 1 \<rparr>
         in loadDirectory listDir localeCompare
              (js_index (navigationHistory s1) (historyIndex s1)) False s1)
      else s)"

fun split_from :: "char \<Rightarrow> string \<Rightarrow> string \<Rightarrow> string list" where
  "split_from c seg [] = [seg]"
| "split_from c seg (x # xs) =
     (if x = c then seg # split_from c [] xs else split_from c (seg @ [x]) xs)"

fun join :: "string \<Rightarrow> string list \<Rightarrow> string" where
  "join sep [] = []"
| "join sep [x] = x"
| "join sep (x # y # ys) = x @ sep @ join sep (y # ys)"

definition parent_of :: "string \<Rightarrow> string" where
  "parent_of p =
     (let joined = join ''/'' (slice_from_0 (split_from CHR ''/'' [] p) (- 1))
      in if joined = '''' then ''/'' else joined)"

definition btnUp_click :: "api \<Rightarrow> (string \<Rightarrow> string \<Rightarrow> int) \<Rightarrow> renderer \<Rightarrow> renderer" where
  "btnUp_click listDir localeCompare s =
     (let parent = parent_of (currentPath s)
      in loadDirectory listDir localeCompare (Some parent) True s)"

definition btnHome_click ::
    "api \<Rightarrow> (string \<Rightarrow> string \<Rightarrow> int) \<Rightarrow> string \<Rightarrow> renderer \<Rightarrow> renderer" where
  "btnHome_click listDir localeCompare home s =
     loadDirectory listDir localeCompare (Some home) True s"

definition btnRefresh_click :: "api \<Rightarrow> (string \<Rightarrow> string \<Rightarrow> int) \<Rightarrow> renderer \<Rightarrow> renderer" where
  "btnRefresh_click listDir localeCompare s =
     loadDirectory listDir localeCompare (Some (currentPath s)) False s"

definition item_dblclick ::
    "api \<Rightarrow> (string \<Rightarrow> string \<Rightarrow> int) \<Rightarrow> FileEntry \<Rightarrow> renderer \<Rightarrow> renderer" where
  "item_dblclick listDir localeCompare entry s =
     (if e_type entry = Directory then
        loadDirectory listDir localeCompare
          (Some (if currentPath s = ''/'' then ''/'' @ e_name entry
                 else currentPath s @ ''/'' @ e_name entry)) True s
      else s)"

text \<open>
  The navigation state of the specification: the three variables. The properties the
  specification asks of it are that the cursor is in range whenever the history is not
  empty, and that the history entry at the cursor is the current path.
\<close>

definition cursor_in_range :: "renderer \<Rightarrow> bool" where
  "cursor_in_range s =
     (0 \<le> historyIndex s \<and> historyIndex s < int (length (navigationHistory s)))"

definition cursor_at_current :: "renderer \<Rightarrow> bool" where
  "cursor_at_current s = (js_index (navigationHistory s) (historyIndex s) = Some (currentPath s))"

definition nav_invariant :: "renderer \<Rightarrow> bool" where
  "nav_invariant s =
     ((navigationHistory s \<noteq> [] \<longrightarrow> cursor_in_range s) \<and> cursor_at_current s)"

definition error_shown :: "renderer \<Rightarrow> string option" where
  "error_shown s = (case container s of Error_view m \<Rightarrow> Some m | _ \<Rightarrow> None)"

definition same_navigation :: "renderer \<Rightarrow> renderer \<Rightarrow> bool" where
  "same_navigation s t =
     (currentPath s = currentPath t
      \<and> navigationHistory s = navigationHistory t
      \<and> historyIndex s = historyIndex t)"

text \<open>
  A comparison function is consistent when it is total and transitive, as a collation
  is; \<^verbatim>\<open>sort\<close> promises an ordered result only for such a function.
\<close>

definition consistent_compare :: "('a \<Rightarrow> 'a \<Rightarrow> int) \<Rightarrow> bool" where
  "consistent_compare cmp =
     ((\<forall>a b. cmp a b \<le> 0 \<or> cmp b a \<le> 0)
      \<and> (\<forall>a b c. cmp a b \<le> 0 \<longrightarrow> cmp b c \<le> 0 \<longrightarrow> cmp a c \<le> 0))"

section \<open>Concrete collaborators\<close>

text \<open>
  Stand-ins for the collaborators in concrete runs: a tool that answers every request
  with one listing, one that fails every request, a child process with a fixed event
  trace, a parser given by a table, a host, and the comparison of strings by character
  code in place of the host's collation.
\<close>

definition tool_reports :: "DirectoryListing \<Rightarrow> api" where
  "tool_reports listing = (\<lambda>p. Resolved listing)"

definition tool_fails :: "string \<Rightarrow> api" where
  "tool_fails err = (\<lambda>p. Rejected err)"

definition child_emits :: "child_event list \<Rightarrow> spawn_call \<Rightarrow> child_event list" where
  "child_emits evs = (\<lambda>c. evs)"

definition parse_table :: "(string \<times> jsval) list \<Rightarrow> json_parser" where
  "parse_table tbl = map_of tbl"

text \<open>
  Two outputs of the tool with the values \<^verbatim>\<open>JSON.parse\<close> gives for them: a listing of
  \<^verbatim>\<open>/home/u\<close> in the documented shape, and an object that has \<^verbatim>\<open>entries\<close> only.
  \<open>json_fixtures\<close> parses these two texts and throws on every other text.
\<close>

definition listing_stdout :: string where
  \<open>listing_stdout = ''{"path":"/home/u","total":2,"entries":[{"name":"b.txt","size":10,"modified":"2024-01-01T00:00:00Z","is_dir":false,"is_symlink":false},{"name":"a","size":0,"modified":"2024-01-01T00:00:00Z","is_dir":true,"is_symlink":false}]}''\<close>

definition listing_value :: jsval where
  "listing_value =
     JObj [(''path'', JStr ''/home/u''), (''total'', JNum 2),
           (''entries'', JArr
              [JObj [(''name'', JStr ''b.txt''), (''size'', JNum 10),
                     (''modified'', JStr ''2024-01-01T00:00:00Z''),
                     (''is_dir'', JBool False), (''is_symlink'', JBool False)],
               JObj [(''name'', JStr ''a''), (''size'', JNum 0),
                     (''modified'', JStr ''2024-01-01T00:00:00Z''),
                     (''is_dir'', JBool True), (''is_symlink'', JBool False)]])]"

definition pathless_stdout :: string where
  \<open>pathless_stdout = ''{"entries":[]}''\<close>

definition pathless_value :: jsval where
  "pathless_value = JObj [(''entries'', JArr [])]"

definition json_fixtures :: json_parser where
  "json_fixtures =
     parse_table [(listing_stdout, listing_value), (pathless_stdout, pathless_value)]"

definition posix_host :: host where
  "posix_host = \<lparr> isPackaged = True, platform = ''linux'', dirname = ''/app/dist/main'',
                   resourcesPath = ''/app/resources'', path_join = join ''/'' \<rparr>"

fun code_unit_compare :: "string \<Rightarrow> string \<Rightarrow> int" where
  "code_unit_compare [] [] = 0"
| "code_unit_compare [] (y # ys) = - 1"
| "code_unit_compare (x # xs) [] = 1"
| "code_unit_compare (x # xs) (y # ys) =
     (if (of_char x :: nat) < of_char y then - 1
      else if (of_char y :: nat) < of_char x then 1
      else code_unit_compare xs ys)"

definition dir_entry :: "string \<Rightarrow> FileEntry" where
  "dir_entry n = \<lparr> e_name = n, e_type = Directory, e_size = 0,
                   e_modified = ''2024-01-01T00:00:00Z'', e_permissions = ''-'' \<rparr>"

definition file_entry :: "string \<Rightarrow> nat \<Rightarrow> FileEntry" where
  "file_entry n sz = \<lparr> e_name = n, e_type = File, e_size = sz,
                       e_modified = ''2024-01-01T00:00:00Z'', e_permissions = ''-'' \<rparr>"

definition at_history :: "string list \<Rightarrow> int \<Rightarrow> string \<Rightarrow> renderer" where
  "at_history h i p = \<lparr> currentPath = p, navigationHistory = h, historyIndex = i,
                        container = Empty_directory, pathDisplay = Some p,
                        btnBack_disabled = (i \<le> 0), requested = [] \<rparr>"

section \<open>Properties of the entry model\<close>

lemma not_nullish_raw_json: "\<not> nullish (raw_json r)"
  by (simp add: raw_json_def)

lemma get_raw_json_is_dir: "get_prop (raw_json r) ''is_dir'' = JBool (is_dir r)"
  by (simp add: get_prop_def raw_json_def)

lemma get_raw_json_is_symlink: "get_prop (raw_json r) ''is_symlink'' = JBool (is_symlink r)"
  by (simp add: get_prop_def raw_json_def)

lemma get_raw_json_name: "get_prop (raw_json r) ''name'' = JStr (r_name r)"
  by (simp add: get_prop_def raw_json_def)

lemma get_raw_json_size: "get_prop (raw_json r) ''size'' = JNum (of_nat (r_size r))"
  by (simp add: get_prop_def raw_json_def)

lemma get_raw_json_modified: "get_prop (raw_json r) ''modified'' = JStr (r_modified r)"
  by (simp add: get_prop_def raw_json_def)

lemma get_raw_json_permissions:
  "get_prop (raw_json r) ''permissions'' =
     (case r_permissions r of None \<Rightarrow> JUndefined | Some p \<Rightarrow> JStr p)"
  by (simp add: get_prop_def raw_json_def optional_key_def split: option.split)

text \<open>
  C1. For every \<open>RawFileEntry\<close> the transformation returns an entry (it does not throw),
  and the entry's type is \<open>Directory\<close> when \<open>is_dir\<close> is set, whatever \<open>is_symlink\<close>
  says, otherwise \<open>Symlink\<close> when \<open>is_symlink\<close> is set, otherwise \<open>File\<close>. The other
  fields are copied, and the permissions are \<^verbatim>\<open>-\<close> when missing or empty.
\<close>

theorem transform_entry_classifies:
  "transform_entry (raw_json r) =
     Inr \<lparr> t_name = JStr (r_name r),
           t_type = (if is_dir r then Directory else if is_symlink r then Symlink else File),
           t_size = JNum (of_nat (r_size r)),
           t_modified = JStr (r_modified r),
           t_permissions = (case r_permissions r of
                              None \<Rightarrow> JStr ''-''
                            | Some p \<Rightarrow> if p = '''' then JStr ''-'' else JStr p) \<rparr>"
  by (simp add: transform_entry_def not_nullish_raw_json get_raw_json_is_dir
      get_raw_json_is_symlink get_raw_json_name get_raw_json_size get_raw_json_modified
      get_raw_json_permissions split: option.split)

section \<open>Properties of the executor\<close>

lemma fold_data:
  "list_all is_data chunks \<Longrightarrow>
   foldl (on_event closing) s chunks =
     s\<lparr> stdout := stdout s @ stdout_text chunks, stderr := stderr s @ stderr_text chunks \<rparr>"
proof (induction chunks arbitrary: s)
  case Nil
  then show ?case by simp
next
  case (Cons e es)
  then show ?case by (cases e) simp_all
qed

lemma settled_stays:
  "settled s \<noteq> Pending \<Longrightarrow> settled (foldl (on_event closing) s evs) = settled s"
proof (induction evs arbitrary: s)
  case Nil
  then show ?case by simp
next
  case (Cons e es)
  then show ?case by (cases e) (simp_all add: settle_def)
qed

lemma spawned_stays: "spawned (foldl (on_event closing) s evs) = spawned s"
proof (induction evs arbitrary: s)
  case Nil
  then show ?case by simp
next
  case (Cons e es)
  then show ?case by (cases e) (simp_all add: settle_def)
qed

lemma run_to_close:
  assumes "list_all is_data chunks" "closing code (stdout_text chunks) (stderr_text chunks) \<noteq> Pending"
  shows "settled (foldl (on_event closing) (executor c) (chunks @ Close code # rest)) =
           closing code (stdout_text chunks) (stderr_text chunks)"
  using assms by (simp add: fold_data executor_def settle_def settled_stays)

lemma run_to_error:
  assumes "list_all is_data chunks"
  shows "settled (foldl (on_event closing) (executor c) (chunks @ Error cause # rest)) =
           Rejected (''Failed to spawn xls: '' @ cause)"
  using assms by (simp add: fold_data executor_def settle_def settled_stays)

lemma on_close_not_pending: "on_close parse code out err \<noteq> Pending"
  by (simp add: on_close_def split: option.split sum.split)

lemma map_throwing_ok:
  "(\<exists>ys. map_throwing transform_entry es = Inr ys) = list_all (\<lambda>e. \<not> nullish e) es"
proof (induction es)
  case Nil
  show ?case by simp
next
  case (Cons e es)
  show ?case
  proof (cases "nullish e")
    case True
    then show ?thesis by (simp add: transform_entry_def)
  next
    case False
    then obtain y where "transform_entry e = Inr y"
      by (simp add: transform_entry_def)
    with Cons False show ?thesis
      by (cases "map_throwing transform_entry es") simp_all
  qed
qed

lemma transform_ok: "(\<exists>l. transform v = Inr l) = has_entries_array v"
proof (cases v)
  case (JObj kvs)
  show ?thesis
  proof (cases "get_prop (JObj kvs) ''entries''")
    case (JArr es)
    show ?thesis
      using map_throwing_ok [of es] JObj JArr
      by (cases "map_throwing transform_entry es")
         (auto simp: transform_def has_entries_array_def)
  qed (simp_all add: JObj transform_def has_entries_array_def)
qed (simp_all add: transform_def has_entries_array_def)

lemma transform_path: "transform v = Inr l \<Longrightarrow> t_path l = get_prop v ''path''"
  by (auto simp: transform_def split: jsval.splits sum.splits)

lemma conforms_entry_not_nullish: "conforms_RawFileEntry e \<Longrightarrow> \<not> nullish e"
  by (cases e) (simp_all add: conforms_RawFileEntry_def)

lemma conforms_has_entries: "conforms_RawCliOutput v \<Longrightarrow> has_entries_array v"
  by (auto simp: conforms_RawCliOutput_def has_entries_array_def list_all_iff
      split: jsval.splits dest: conforms_entry_not_nullish)

lemma conforms_raw_json: "conforms_RawFileEntry (raw_json r)"
  by (simp add: conforms_RawFileEntry_def get_prop_def raw_json_def optional_key_def
       optional_string_def split: option.split)

lemma listDirectory_spawns_once:
  "spawned (listDirectory parse child h dirPath) =
     [\<lparr> command = getXlsPath h, args = cli_contract dirPath \<rparr>]"
  by (simp add: listDirectory_def Let_def spawned_stays executor_def cli_contract_def)

section \<open>Properties of the renderer\<close>

lemma load_rejected:
  "listDir p = Rejected e \<Longrightarrow>
   loadDirectory listDir lc p add s = on_catch e (before_await p s)"
  by (simp add: loadDirectory_def)

lemma load_resolved:
  "listDir p = Resolved l \<Longrightarrow>
   loadDirectory listDir lc p add s = after_await lc add l (before_await p s)"
  by (simp add: loadDirectory_def)

lemma load_pending:
  "listDir p = Pending \<Longrightarrow> loadDirectory listDir lc p add s = before_await p s"
  by (simp add: loadDirectory_def)

lemma before_await_nav [simp]:
  "currentPath (before_await p s) = currentPath s"
  "navigationHistory (before_await p s) = navigationHistory s"
  "historyIndex (before_await p s) = historyIndex s"
  by (simp_all add: before_await_def)

lemma on_catch_nav [simp]:
  "currentPath (on_catch e s) = currentPath s"
  "navigationHistory (on_catch e s) = navigationHistory s"
  "historyIndex (on_catch e s) = historyIndex s"
  "container (on_catch e s) = Error_view (''Error: '' @ e)"
  by (simp_all add: on_catch_def)

lemma after_await_replay [simp]:
  "currentPath (after_await lc False l s) = path l"
  "navigationHistory (after_await lc False l s) = navigationHistory s"
  "historyIndex (after_await lc False l s) = historyIndex s"
  by (simp_all add: after_await_def Let_def)

lemma after_await_record [simp]:
  "currentPath (after_await lc True l s) = path l"
  "navigationHistory (after_await lc True l s) =
     slice_from_0 (navigationHistory s) (historyIndex s + 1) @ [path l]"
  "historyIndex (after_await lc True l s) =
     int (length (slice_from_0 (navigationHistory s) (historyIndex s + 1)))"
  by (simp_all add: after_await_def record_visit_def Let_def)

lemma mset_insert_by: "mset (insert_by cmp x ys) = add_mset x (mset ys)"
  by (induction ys) simp_all

lemma mset_array_sort: "mset (array_sort cmp xs) = mset xs"
  unfolding array_sort_def by (induction xs) (simp_all add: mset_insert_by)

lemma length_array_sort: "length (array_sort cmp xs) = length xs"
  using mset_array_sort [of cmp xs] by (metis size_mset)

lemma array_sort_eq_Nil: "(array_sort cmp xs = []) = (xs = [])"
  using length_array_sort [of cmp xs] by (metis length_0_conv)

lemma set_insert_by: "set (insert_by cmp x ys) = insert x (set ys)"
  using mset_insert_by [of cmp x ys] by (metis set_mset_add_mset_insert set_mset_mset)

lemma sorted_insert_by:
  assumes "consistent_compare cmp" "sorted_wrt (\<lambda>a b. cmp a b \<le> 0) ys"
  shows "sorted_wrt (\<lambda>a b. cmp a b \<le> 0) (insert_by cmp x ys)"
  using assms(2)
proof (induction ys)
  case Nil
  then show ?case by simp
next
  case (Cons y ys)
  have total: "\<And>a b. cmp a b \<le> 0 \<or> cmp b a \<le> 0"
    and trans: "\<And>a b c. cmp a b \<le> 0 \<Longrightarrow> cmp b c \<le> 0 \<Longrightarrow> cmp a c \<le> 0"
    using assms(1) unfolding consistent_compare_def by blast+
  show ?case
  proof (cases "cmp x y \<le> 0")
    case True
    then have "\<forall>z\<in>set ys. cmp x z \<le> 0"
      using Cons.prems trans by auto
    with True Cons.prems show ?thesis by simp
  next
    case False
    then have "cmp y x \<le> 0" using total by blast
    with False Cons show ?thesis by (auto simp: set_insert_by)
  qed
qed

lemma sorted_array_sort:
  "consistent_compare cmp \<Longrightarrow> sorted_wrt (\<lambda>a b. cmp a b \<le> 0) (array_sort cmp xs)"
  unfolding array_sort_def by (induction xs) (simp_all add: sorted_insert_by)

lemma consistent_compare_entries:
  assumes "consistent_compare lc"
  shows "consistent_compare (compare_entries lc)"
proof -
  have total: "\<And>a b. lc a b \<le> 0 \<or> lc b a \<le> 0"
    and trans: "\<And>a b c. lc a b \<le> 0 \<Longrightarrow> lc b c \<le> 0 \<Longrightarrow> lc a c \<le> 0"
    using assms unfolding consistent_compare_def by blast+
  have "compare_entries lc a b \<le> 0 \<or> compare_entries lc b a \<le> 0" for a b
    using total [of "e_name a" "e_name b"] by (simp add: compare_entries_def)
  moreover have "compare_entries lc a c \<le> 0"
    if "compare_entries lc a b \<le> 0" "compare_entries lc b c \<le> 0" for a b c
    using that trans [of "e_name a" "e_name b" "e_name c"]
    by (auto simp: compare_entries_def split: if_splits)
  ultimately show ?thesis unfolding consistent_compare_def by blast
qed

lemma after_await_container [simp]:
  "container (after_await lc add l s) =
     (if entries l = [] then Empty_directory
      else Tree (array_sort (compare_entries lc) (entries l)))"
  by (simp add: after_await_def Let_def array_sort_eq_Nil)

lemma back_history:
  "navigationHistory (btnBack_click listDir lc s) = navigationHistory s"
  by (cases "listDir (js_index (navigationHistory s) (historyIndex s - 1))")
     (simp_all add: btnBack_click_def Let_def loadDirectory_def)

lemma back_index:
  "historyIndex (btnBack_click listDir lc s) =
     (if historyIndex s > 0 then historyIndex s - 1 else historyIndex s)"
  by (cases "listDir (js_index (navigationHistory s) (historyIndex s - 1))")
     (simp_all add: btnBack_click_def Let_def loadDirectory_def)

lemma code_unit_total: "code_unit_compare a b \<le> 0 \<or> code_unit_compare b a \<le> 0"
  by (induction a b rule: code_unit_compare.induct) auto

lemma code_unit_trans:
  "code_unit_compare a b \<le> 0 \<Longrightarrow> code_unit_compare b c \<le> 0 \<Longrightarrow> code_unit_compare a c \<le> 0"
proof (induction a b arbitrary: c rule: code_unit_compare.induct)
  case (1)
  then show ?case by simp
next
  case (2 y ys)
  then show ?case by (cases c) simp_all
next
  case (3 x xs)
  then show ?case by simp
next
  case (4 x xs y ys)
  show ?case
  proof (cases c)
    case Nil
    with 4 show ?thesis by (simp split: if_splits)
  next
    case (Cons z zs)
    let ?x = "of_char x :: nat" and ?y = "of_char y :: nat" and ?z = "of_char z :: nat"
    from "4.prems"(1) have xy: "?x < ?y \<or> (?x = ?y \<and> code_unit_compare xs ys \<le> 0)"
      by (simp split: if_splits)
    from "4.prems"(2) Cons have yz: "?y < ?z \<or> (?y = ?z \<and> code_unit_compare ys zs \<le> 0)"
      by (simp split: if_splits)
    show ?thesis
    proof (cases "?x < ?z")
      case True
      with Cons show ?thesis by simp
    next
      case False
      with xy yz have eq: "?x = ?y" "?y = ?z"
        and le: "code_unit_compare xs ys \<le> 0" "code_unit_compare ys zs \<le> 0"
        by linarith+
      from eq le "4.IH" [of zs] have "code_unit_compare xs zs \<le> 0" by simp
      with eq Cons show ?thesis by simp
    qed
  qed
qed

lemma consistent_code_unit: "consistent_compare code_unit_compare"
  unfolding consistent_compare_def using code_unit_total code_unit_trans by blast

text \<open>The parent of the root is the root: Up at \<^verbatim>\<open>/\<close> asks for \<^verbatim>\<open>/\<close> again.\<close>

lemma parent_of_root: "parent_of ''/'' = ''/''"
  by (simp add: parent_of_def slice_from_0_def)

section \<open>The claims about the enumeration client\<close>

text \<open>
  C7. The claim: every \<^verbatim>\<open>listDirectory(path)\<close> call spawns the tool once, with the
  arguments \<^verbatim>\<open>--format json -a -l path\<close>. The \<^verbatim>\<open>listDirectory\<close> that transforms the
  entries does so. The \<^verbatim>\<open>listDirectory\<close> of the second main-process file spawns once
  too, but passes \<^verbatim>\<open>--json\<close> in place of \<^verbatim>\<open>--format json\<close>, for every path and so for
  \<^verbatim>\<open>/tmp\<close>.
\<close>

theorem listDirectory_raw_arguments:
  "map args (spawned (listDirectory_raw parse child h dirPath)) = [[''--json'', ''-a'', ''-l'', dirPath]]
   \<and> map args (spawned (listDirectory_raw parse child h dirPath)) \<noteq> [cli_contract dirPath]
   \<and> map args (spawned (listDirectory_raw parse child h ''/tmp'')) = [[''--json'', ''-a'', ''-l'', ''/tmp'']]"
  by (simp add: listDirectory_raw_def Let_def spawned_stays executor_def cli_contract_def)

text \<open>
  C2, as the code has it. Let the child's events be data chunks followed by a first
  \<^verbatim>\<open>close\<close> or \<^verbatim>\<open>error\<close> event \<open>ev\<close>. The promise settles exactly once, by \<open>ev\<close>:
  \<^item> exit code 0 and the output parses to a value that has an \<^verbatim>\<open>entries\<close> array without
    \<^verbatim>\<open>null\<close> elements: resolved with the transformed output, whose path is the value's
    \<^verbatim>\<open>path\<close> property;
  \<^item> exit code 0 and the output parses to any other value, or does not parse: rejected
    with \<^verbatim>\<open>Failed to parse JSON: \<close> and the whole output;
  \<^item> any other exit code (or none): rejected with \<^verbatim>\<open>xls exited with code\<close>, the code and
    the whole error output;
  \<^item> an \<^verbatim>\<open>error\<close> event: rejected with \<^verbatim>\<open>Failed to spawn xls: \<close> and the cause.
  A value of the documented shape has such an \<^verbatim>\<open>entries\<close> array, so the documented
  output always resolves.
\<close>

theorem listDirectory_outcomes:
  assumes run: "child \<lparr> command = getXlsPath h, args = cli_contract dirPath \<rparr> = chunks @ ev # rest"
    and data: "list_all is_data chunks"
  shows
    "(ev = Close (Some 0) \<and> parse (stdout_text chunks) = Some v \<and> has_entries_array v \<longrightarrow>
        (\<exists>l. settled (listDirectory parse child h dirPath) = Resolved l
             \<and> transform v = Inr l \<and> t_path l = get_prop v ''path''))
     \<and> (ev = Close (Some 0) \<and> parse (stdout_text chunks) = Some v \<and> \<not> has_entries_array v \<longrightarrow>
        settled (listDirectory parse child h dirPath) =
          Rejected (''Failed to parse JSON: '' @ stdout_text chunks))
     \<and> (ev = Close (Some 0) \<and> parse (stdout_text chunks) = None \<longrightarrow>
        settled (listDirectory parse child h dirPath) =
          Rejected (''Failed to parse JSON: '' @ stdout_text chunks))
     \<and> (ev = Close code \<and> code \<noteq> Some 0 \<longrightarrow>
        settled (listDirectory parse child h dirPath) =
          Rejected (''xls exited with code '' @ code_text code @ '': '' @ stderr_text chunks))
     \<and> (ev = Error cause \<longrightarrow>
        settled (listDirectory parse child h dirPath) =
          Rejected (''Failed to spawn xls: '' @ cause))
     \<and> (conforms_RawCliOutput v \<longrightarrow> has_entries_array v)"
proof -
  let ?out = "stdout_text chunks" and ?err = "stderr_text chunks"
  have closed: "settled (listDirectory parse child h dirPath) = on_close parse c ?out ?err"
    if "ev = Close c" for c
    using run that run_to_close [where closing = "on_close parse", OF data on_close_not_pending]
    by (simp add: listDirectory_def Let_def cli_contract_def)
  have failed: "settled (listDirectory parse child h dirPath) =
      Rejected (''Failed to spawn xls: '' @ cause)" if "ev = Error cause"
    using run that run_to_error [OF data]
    by (simp add: listDirectory_def Let_def cli_contract_def)
  have ok: "\<exists>l. on_close parse (Some 0) ?out ?err = Resolved l
      \<and> transform v = Inr l \<and> t_path l = get_prop v ''path''"
    if "parse ?out = Some v" "has_entries_array v"
  proof -
    from that(2) obtain l where "transform v = Inr l"
      using transform_ok [of v] by blast
    with that(1) show ?thesis
      by (simp add: on_close_def transform_path)
  qed
  have bad: "on_close parse (Some 0) ?out ?err = Rejected (''Failed to parse JSON: '' @ ?out)"
    if "parse ?out = Some v" "\<not> has_entries_array v"
  proof -
    from that(2) have "\<exists>e. transform v = Inl e"
      using transform_ok [of v] by (cases "transform v") auto
    with that(1) show ?thesis
      by (auto simp: on_close_def)
  qed
  have unparsed: "on_close parse (Some 0) ?out ?err = Rejected (''Failed to parse JSON: '' @ ?out)"
    if "parse ?out = None"
    using that by (simp add: on_close_def)
  have nonzero: "on_close parse code ?out ?err =
      Rejected (''xls exited with code '' @ code_text code @ '': '' @ ?err)" if "code \<noteq> Some 0"
    using that by (simp add: on_close_def)
  show ?thesis
    using closed failed ok bad unparsed nonzero conforms_has_entries [of v] by metis
qed

lemma transform_listing_value:
  "transform listing_value =
     Inr \<lparr> t_path = JStr ''/home/u'',
           t_entries =
             [\<lparr> t_name = JStr ''b.txt'', t_type = File, t_size = JNum 10,
                t_modified = JStr ''2024-01-01T00:00:00Z'', t_permissions = JStr ''-'' \<rparr>,
              \<lparr> t_name = JStr ''a'', t_type = Directory, t_size = JNum 0,
                t_modified = JStr ''2024-01-01T00:00:00Z'', t_permissions = JStr ''-'' \<rparr>] \<rparr>"
  by (simp add: transform_def listing_value_def get_prop_def transform_entry_def)

lemma json_fixtures_simps:
  "json_fixtures listing_stdout = Some listing_value"
  "json_fixtures pathless_stdout = Some pathless_value"
  "json_fixtures ''<html>'' = None"
  by (simp_all add: json_fixtures_def parse_table_def listing_stdout_def pathless_stdout_def)

text \<open>
  The four outcomes on concrete runs: the documented listing of \<^verbatim>\<open>/home/u\<close>, an output
  that is not JSON, exit code 2 with \<^verbatim>\<open>permission denied\<close> on the error stream, and a
  spawn failure (which Node follows with a \<^verbatim>\<open>close\<close> event that changes nothing).
\<close>

theorem listDirectory_outcomes_witness:
  "settled (listDirectory json_fixtures (child_emits [Stdout_data listing_stdout, Close (Some 0)])
       posix_host ''/home/u'') =
     Resolved \<lparr> t_path = JStr ''/home/u'',
           t_entries =
             [\<lparr> t_name = JStr ''b.txt'', t_type = File, t_size = JNum 10,
                t_modified = JStr ''2024-01-01T00:00:00Z'', t_permissions = JStr ''-'' \<rparr>,
              \<lparr> t_name = JStr ''a'', t_type = Directory, t_size = JNum 0,
                t_modified = JStr ''2024-01-01T00:00:00Z'', t_permissions = JStr ''-'' \<rparr>] \<rparr>
   \<and> settled (listDirectory json_fixtures (child_emits [Stdout_data ''<html>'', Close (Some 0)])
       posix_host ''/home/u'') = Rejected ''Failed to parse JSON: <html>''
   \<and> settled (listDirectory json_fixtures
       (child_emits [Stderr_data ''permission '', Stderr_data ''denied'', Close (Some 2)])
       posix_host ''/root'') = Rejected ''xls exited with code 2: permission denied''
   \<and> settled (listDirectory json_fixtures
       (child_emits [Error ''spawn xls ENOENT'', Close (Some (- 2))])
       posix_host ''/root'') = Rejected ''Failed to spawn xls: spawn xls ENOENT''"
proof -
  have resolved: "settled (listDirectory json_fixtures
       (child_emits [Stdout_data listing_stdout, Close (Some 0)]) posix_host ''/home/u'') =
     Resolved \<lparr> t_path = JStr ''/home/u'',
           t_entries =
             [\<lparr> t_name = JStr ''b.txt'', t_type = File, t_size = JNum 10,
                t_modified = JStr ''2024-01-01T00:00:00Z'', t_permissions = JStr ''-'' \<rparr>,
              \<lparr> t_name = JStr ''a'', t_type = Directory, t_size = JNum 0,
                t_modified = JStr ''2024-01-01T00:00:00Z'', t_permissions = JStr ''-'' \<rparr>] \<rparr>"
    using listDirectory_outcomes [where child = "child_emits [Stdout_data listing_stdout, Close (Some 0)]"
        and h = posix_host and dirPath = "''/home/u''" and chunks = "[Stdout_data listing_stdout]"
        and ev = "Close (Some 0)" and rest = "[]" and parse = json_fixtures and v = listing_value]
      transform_ok [of listing_value]
    by (simp add: child_emits_def json_fixtures_simps transform_listing_value)
  have unparsed: "settled (listDirectory json_fixtures
       (child_emits [Stdout_data ''<html>'', Close (Some 0)]) posix_host ''/home/u'') =
     Rejected ''Failed to parse JSON: <html>''"
    using listDirectory_outcomes [where child = "child_emits [Stdout_data ''<html>'', Close (Some 0)]"
        and h = posix_host and dirPath = "''/home/u''" and chunks = "[Stdout_data ''<html>'']"
        and ev = "Close (Some 0)" and rest = "[]" and parse = json_fixtures]
    by (simp add: child_emits_def json_fixtures_simps)
  have nonzero: "settled (listDirectory json_fixtures
       (child_emits [Stderr_data ''permission '', Stderr_data ''denied'', Close (Some 2)])
       posix_host ''/root'') = Rejected ''xls exited with code 2: permission denied''"
    using listDirectory_outcomes
       [where child = "child_emits [Stderr_data ''permission '', Stderr_data ''denied'', Close (Some 2)]"
        and h = posix_host and dirPath = "''/root''"
        and chunks = "[Stderr_data ''permission '', Stderr_data ''denied'']"
        and ev = "Close (Some 2)" and rest = "[]" and parse = json_fixtures and code = "Some 2"]
    by (simp add: child_emits_def code_text_def)
  have spawn: "settled (listDirectory json_fixtures
       (child_emits [Error ''spawn xls ENOENT'', Close (Some (- 2))])
       posix_host ''/root'') = Rejected ''Failed to spawn xls: spawn xls ENOENT''"
    using listDirectory_outcomes
       [where child = "child_emits [Error ''spawn xls ENOENT'', Close (Some (- 2))]"
        and h = posix_host and dirPath = "''/root''" and chunks = "[]"
        and ev = "Error ''spawn xls ENOENT''" and rest = "[Close (Some (- 2))]"
        and parse = json_fixtures and cause = "''spawn xls ENOENT''"]
    by (simp add: child_emits_def)
  from resolved unparsed nonzero spawn show ?thesis by simp
qed

text \<open>
  C2, as the claim states it, asks for a rejection whenever the output of a run that
  exits with code 0 is not of the documented shape. The output \<^verbatim>\<open>{"entries":[]}\<close> has
  neither \<^verbatim>\<open>path\<close> nor \<^verbatim>\<open>total\<close>, and the promise is resolved, with an undefined path.
\<close>

theorem listDirectory_resolves_other_shape:
  "json_fixtures pathless_stdout = Some pathless_value
   \<and> \<not> conforms_RawCliOutput pathless_value
   \<and> settled (listDirectory json_fixtures
        (child_emits [Stdout_data pathless_stdout, Close (Some 0)]) posix_host ''/srv'') =
       Resolved \<lparr> t_path = JUndefined, t_entries = [] \<rparr>"
  by (simp add: json_fixtures_simps conforms_RawCliOutput_def pathless_value_def get_prop_def
      listDirectory_def Let_def child_emits_def executor_def settle_def on_close_def
      transform_def)

section \<open>The claims about navigation\<close>

lemma refresh_nav:
  "listDir (Some (currentPath s)) = Resolved l \<Longrightarrow>
   currentPath (btnRefresh_click listDir lc s) = path l
   \<and> navigationHistory (btnRefresh_click listDir lc s) = navigationHistory s
   \<and> historyIndex (btnRefresh_click listDir lc s) = historyIndex s"
  by (simp add: btnRefresh_click_def load_resolved)

lemma back_nav:
  "0 < historyIndex s \<Longrightarrow>
   listDir (js_index (navigationHistory s) (historyIndex s - 1)) = Resolved l \<Longrightarrow>
   currentPath (btnBack_click listDir lc s) = path l
   \<and> navigationHistory (btnBack_click listDir lc s) = navigationHistory s
   \<and> historyIndex (btnBack_click listDir lc s) = historyIndex s - 1"
  by (simp add: btnBack_click_def Let_def load_resolved)

lemma sort_two_entries:
  "array_sort (compare_entries code_unit_compare) [file_entry ''b.txt'' 10, dir_entry ''a'']
     = [dir_entry ''a'', file_entry ''b.txt'' 10]"
  by (simp add: array_sort_def compare_entries_def file_entry_def dir_entry_def)

lemma entry_fixture_simps:
  "e_type (file_entry n sz) = File" "e_name (file_entry n sz) = n"
  "e_type (dir_entry n) = Directory" "e_name (dir_entry n) = n"
  by (simp_all add: file_entry_def dir_entry_def)

lemma sort_three_entries:
  "array_sort (compare_entries code_unit_compare)
     [file_entry ''b.txt'' 10, dir_entry ''a'', file_entry ''a.txt'' 3]
     = [dir_entry ''a'', file_entry ''a.txt'' 3, file_entry ''b.txt'' 10]"
  by (simp add: array_sort_def compare_entries_def file_entry_def dir_entry_def)

text \<open>
  C6. A load whose listing request is rejected, as it is when the tool exits with a
  nonzero code, leaves the current path, the history and the cursor as they were, and
  shows the error: the container holds \<^verbatim>\<open>Error: \<close> followed by the rejection.
\<close>

theorem failed_load_keeps_navigation:
  assumes "listDir p = Rejected err"
  shows "same_navigation (loadDirectory listDir lc p addToHistory s) s
       \<and> error_shown (loadDirectory listDir lc p addToHistory s) = Some (''Error: '' @ err)"
  using assms by (simp add: load_rejected same_navigation_def error_shown_def)

text \<open>
  The refused listing of \<^verbatim>\<open>/root\<close>, exit code 2 with \<^verbatim>\<open>permission denied\<close>.
\<close>

theorem failed_load_keeps_navigation_witness:
  "same_navigation
     (loadDirectory (tool_fails ''Error: xls exited with code 2: permission denied'')
        code_unit_compare (Some ''/root'') True (at_history [''/home/u''] 0 ''/home/u''))
     (at_history [''/home/u''] 0 ''/home/u'')
   \<and> error_shown
     (loadDirectory (tool_fails ''Error: xls exited with code 2: permission denied'')
        code_unit_compare (Some ''/root'') True (at_history [''/home/u''] 0 ''/home/u''))
     = Some ''Error: Error: xls exited with code 2: permission denied''"
  using failed_load_keeps_navigation
     [where listDir = "tool_fails ''Error: xls exited with code 2: permission denied''"
      and p = "Some ''/root''" and err = "''Error: xls exited with code 2: permission denied''"
      and lc = code_unit_compare and addToHistory = True
      and s = "at_history [''/home/u''] 0 ''/home/u''"]
  by (simp add: tool_fails_def)

text \<open>
  C10. A click on Back with the cursor at 1 or more, whose replayed listing is then
  rejected, leaves the cursor one lower than before, with the current path and the
  history unchanged: the cursor is decremented before the request, which asks for the
  history entry at the decremented cursor, and the \<^verbatim>\<open>catch\<close> block does not restore it.
\<close>

theorem failed_back_keeps_decrement:
  assumes "1 \<le> historyIndex s"
    and "listDir (js_index (navigationHistory s) (historyIndex s - 1)) = Rejected err"
  shows "historyIndex (btnBack_click listDir lc s) = historyIndex s - 1
       \<and> currentPath (btnBack_click listDir lc s) = currentPath s
       \<and> navigationHistory (btnBack_click listDir lc s) = navigationHistory s
       \<and> requested (btnBack_click listDir lc s) =
           requested s @ [js_index (navigationHistory s) (historyIndex s - 1)]
       \<and> error_shown (btnBack_click listDir lc s) = Some (''Error: '' @ err)"
  using assms
  by (simp add: btnBack_click_def Let_def load_rejected error_shown_def before_await_def
      on_catch_def)

text \<open>
  Back from \<^verbatim>\<open>/b\<close> when \<^verbatim>\<open>/a\<close> can no longer be listed.
\<close>

theorem failed_back_keeps_decrement_witness:
  "historyIndex (btnBack_click (tool_fails ''Error: gone'') code_unit_compare
       (at_history [''/a'', ''/b''] 1 ''/b'')) = 0
   \<and> currentPath (btnBack_click (tool_fails ''Error: gone'') code_unit_compare
       (at_history [''/a'', ''/b''] 1 ''/b'')) = ''/b''
   \<and> navigationHistory (btnBack_click (tool_fails ''Error: gone'') code_unit_compare
       (at_history [''/a'', ''/b''] 1 ''/b'')) = [''/a'', ''/b'']
   \<and> requested (btnBack_click (tool_fails ''Error: gone'') code_unit_compare
       (at_history [''/a'', ''/b''] 1 ''/b'')) = [Some ''/a'']"
  using failed_back_keeps_decrement [where s = "at_history [''/a'', ''/b''] 1 ''/b''"
      and listDir = "tool_fails ''Error: gone''" and err = "''Error: gone''"
      and lc = code_unit_compare]
  by (simp add: at_history_def tool_fails_def js_index_def)

text \<open>
  C9. A click on Refresh never changes the history or the cursor, whatever becomes of
  the request. When the request succeeds, the current path becomes the path the tool
  reports, and the container shows the fetched entries, all of them, in display order
  (or the empty-directory notice when there are none).
\<close>

theorem refresh_keeps_history:
  "navigationHistory (btnRefresh_click listDir lc s) = navigationHistory s
   \<and> historyIndex (btnRefresh_click listDir lc s) = historyIndex s
   \<and> (listDir (Some (currentPath s)) = Resolved l \<longrightarrow>
        currentPath (btnRefresh_click listDir lc s) = path l
        \<and> container (btnRefresh_click listDir lc s) =
            (if entries l = [] then Empty_directory
             else Tree (array_sort (compare_entries lc) (entries l)))
        \<and> mset (array_sort (compare_entries lc) (entries l)) = mset (entries l))"
  by (cases "listDir (Some (currentPath s))")
     (simp_all add: btnRefresh_click_def loadDirectory_def mset_array_sort)

text \<open>
  A refresh of \<^verbatim>\<open>/srv/current\<close> for which the tool reports \<^verbatim>\<open>/srv/releases/2\<close>.
\<close>

theorem refresh_keeps_history_witness:
  "navigationHistory
     (btnRefresh_click
        (tool_reports \<lparr> path = ''/srv/releases/2'',
                         entries = [file_entry ''b.txt'' 10, dir_entry ''a''] \<rparr>)
        code_unit_compare (at_history [''/home/u'', ''/srv/current''] 1 ''/srv/current''))
     = [''/home/u'', ''/srv/current'']
   \<and> historyIndex
     (btnRefresh_click
        (tool_reports \<lparr> path = ''/srv/releases/2'',
                         entries = [file_entry ''b.txt'' 10, dir_entry ''a''] \<rparr>)
        code_unit_compare (at_history [''/home/u'', ''/srv/current''] 1 ''/srv/current'')) = 1
   \<and> currentPath
     (btnRefresh_click
        (tool_reports \<lparr> path = ''/srv/releases/2'',
                         entries = [file_entry ''b.txt'' 10, dir_entry ''a''] \<rparr>)
        code_unit_compare (at_history [''/home/u'', ''/srv/current''] 1 ''/srv/current''))
     = ''/srv/releases/2''
   \<and> container
     (btnRefresh_click
        (tool_reports \<lparr> path = ''/srv/releases/2'',
                         entries = [file_entry ''b.txt'' 10, dir_entry ''a''] \<rparr>)
        code_unit_compare (at_history [''/home/u'', ''/srv/current''] 1 ''/srv/current''))
     = Tree [dir_entry ''a'', file_entry ''b.txt'' 10]"
  using refresh_keeps_history
     [where listDir = "tool_reports \<lparr> path = ''/srv/releases/2'',
                         entries = [file_entry ''b.txt'' 10, dir_entry ''a''] \<rparr>"
      and lc = code_unit_compare
      and s = "at_history [''/home/u'', ''/srv/current''] 1 ''/srv/current''"
      and l = "\<lparr> path = ''/srv/releases/2'',
                 entries = [file_entry ''b.txt'' 10, dir_entry ''a''] \<rparr>"]
  by (simp add: tool_reports_def at_history_def sort_two_entries)

text \<open>
  C5, as the code has it. A click on Back with the cursor at 0 or below changes
  nothing at all: no request is made, the navigation state is as before, and the
  container is as before, so no error appears. The handler returns nothing.
\<close>

theorem back_without_history:
  assumes "historyIndex s \<le> 0"
  shows "btnBack_click listDir lc s = s"
  using assms by (simp add: btnBack_click_def)

text \<open>
  Back after the first load, and Back before any load.
\<close>

theorem back_without_history_witness:
  "btnBack_click (tool_fails ''Error: unused'') code_unit_compare (at_history [''/home/u''] 0 ''/home/u'')
     = at_history [''/home/u''] 0 ''/home/u''
   \<and> btnBack_click (tool_fails ''Error: unused'') code_unit_compare (at_history [] (- 1) ''/'')
     = at_history [] (- 1) ''/''"
  using back_without_history [where s = "at_history [''/home/u''] 0 ''/home/u''"
      and listDir = "tool_fails ''Error: unused''" and lc = code_unit_compare]
    back_without_history [where s = "at_history [] (- 1) ''/''"
      and listDir = "tool_fails ''Error: unused''" and lc = code_unit_compare]
  by (simp add: at_history_def)

text \<open>
  C5, as the claim states it, has Back answer with a NoHistoryError when the cursor is
  at 0 or below. After the first load of \<^verbatim>\<open>/home/u\<close> the cursor is 0, and a click on
  Back leaves the container without any error.
\<close>

theorem back_without_history_shows_no_error:
  "historyIndex (at_history [''/home/u''] 0 ''/home/u'') \<le> 0
   \<and> error_shown (btnBack_click (tool_fails ''Error: unused'') code_unit_compare
        (at_history [''/home/u''] 0 ''/home/u'')) = None"
  by (simp add: btnBack_click_def at_history_def error_shown_def)

text \<open>
  C3, as the code has it. From the history \<open>[A, B, C]\<close> with the cursor at 2, a
  click on Back (whatever becomes of its replay) followed by a successful recorded load
  of \<open>D\<close> gives the history \<open>[A, B, path l]\<close> with the cursor at 2, where \<open>l\<close> is
  the listing the tool reports for \<open>D\<close>: the entry \<open>C\<close> is dropped, and the entry
  recorded is the reported path, which is \<open>D\<close> when the tool reports the requested path.
\<close>

theorem history_truncation:
  assumes "navigationHistory s = [A, B, C]" "historyIndex s = 2"
    and "listDir2 (Some D) = Resolved l"
  shows "navigationHistory (loadDirectory listDir2 lc (Some D) True (btnBack_click listDir1 lc s))
           = [A, B, path l]
       \<and> historyIndex (loadDirectory listDir2 lc (Some D) True (btnBack_click listDir1 lc s)) = 2
       \<and> currentPath (loadDirectory listDir2 lc (Some D) True (btnBack_click listDir1 lc s))
           = path l"
  using assms by (simp add: load_resolved back_history back_index slice_from_0_def)

text \<open>
  The law on \<^verbatim>\<open>/a /b /c\<close> and a tool that reports \<^verbatim>\<open>/d\<close> for \<^verbatim>\<open>/d\<close>; the replay of
  \<^verbatim>\<open>/b\<close> fails here, and the law holds all the same.
\<close>

theorem history_truncation_witness:
  "navigationHistory
     (loadDirectory (tool_reports \<lparr> path = ''/d'', entries = [] \<rparr>) code_unit_compare (Some ''/d'') True
        (btnBack_click (tool_fails ''Error: gone'') code_unit_compare
           (at_history [''/a'', ''/b'', ''/c''] 2 ''/c''))) = [''/a'', ''/b'', ''/d'']
   \<and> historyIndex
     (loadDirectory (tool_reports \<lparr> path = ''/d'', entries = [] \<rparr>) code_unit_compare (Some ''/d'') True
        (btnBack_click (tool_fails ''Error: gone'') code_unit_compare
           (at_history [''/a'', ''/b'', ''/c''] 2 ''/c''))) = 2"
  using history_truncation [where s = "at_history [''/a'', ''/b'', ''/c''] 2 ''/c''"
      and A = "''/a''" and B = "''/b''" and C = "''/c''" and D = "''/d''"
      and ?listDir2.0 = "tool_reports \<lparr> path = ''/d'', entries = [] \<rparr>"
      and l = "\<lparr> path = ''/d'', entries = [] \<rparr>"
      and ?listDir1.0 = "tool_fails ''Error: gone''" and lc = code_unit_compare]
  by (simp add: at_history_def tool_reports_def)

text \<open>
  C3, as the claim states it, records the requested path. For the request \<^verbatim>\<open>/tmp\<close>
  answered with the resolved path \<^verbatim>\<open>/private/tmp\<close>, the history ends with the
  reported path, not with \<^verbatim>\<open>/tmp\<close>.
\<close>

theorem history_records_reported_path:
  "navigationHistory
     (loadDirectory (tool_reports \<lparr> path = ''/private/tmp'', entries = [] \<rparr>) code_unit_compare
        (Some ''/tmp'') True
        (btnBack_click (tool_reports \<lparr> path = ''/b'', entries = [] \<rparr>) code_unit_compare
           (at_history [''/a'', ''/b'', ''/c''] 2 ''/c''))) = [''/a'', ''/b'', ''/private/tmp'']
   \<and> [''/a'', ''/b'', ''/private/tmp''] \<noteq> [''/a'', ''/b'', ''/tmp'']"
  by (simp add: load_resolved back_history back_index slice_from_0_def at_history_def
      tool_reports_def)

text \<open>
  C4, as the code has it. After every successful load that records history (a
  navigation to a path, Up, Home), from any state, the cursor is in range and the
  history entry at the cursor is the current path. After a successful replay (Refresh,
  Back) from a state whose cursor is in range, the cursor is still in range, and the
  history entry at the cursor is the current path exactly when the tool reports the path
  that the history holds there.
\<close>

theorem committed_navigation_invariant:
  "(listDir p = Resolved l \<longrightarrow>
      nav_invariant (loadDirectory listDir lc p True s)
      \<and> cursor_in_range (loadDirectory listDir lc p True s))
   \<and> (listDir (Some (parent_of (currentPath s))) = Resolved l \<longrightarrow>
      nav_invariant (btnUp_click listDir lc s) \<and> cursor_in_range (btnUp_click listDir lc s))
   \<and> (listDir (Some home) = Resolved l \<longrightarrow>
      nav_invariant (btnHome_click listDir lc home s)
      \<and> cursor_in_range (btnHome_click listDir lc home s))
   \<and> (cursor_in_range s \<and> listDir (Some (currentPath s)) = Resolved l \<longrightarrow>
      cursor_in_range (btnRefresh_click listDir lc s)
      \<and> nav_invariant (btnRefresh_click listDir lc s)
          = (path l = navigationHistory s ! nat (historyIndex s)))
   \<and> (cursor_in_range s \<and> 0 < historyIndex s
       \<and> listDir (Some (navigationHistory s ! nat (historyIndex s - 1))) = Resolved l \<longrightarrow>
      cursor_in_range (btnBack_click listDir lc s)
      \<and> nav_invariant (btnBack_click listDir lc s)
          = (path l = navigationHistory s ! nat (historyIndex s - 1)))"
proof -
  have recording: "nav_invariant (loadDirectory listDir lc q True s)
      \<and> cursor_in_range (loadDirectory listDir lc q True s)" if "listDir q = Resolved l" for q
    using that
    by (simp add: load_resolved nav_invariant_def cursor_in_range_def cursor_at_current_def
        js_index_def)
  have refresh: "cursor_in_range (btnRefresh_click listDir lc s)
      \<and> nav_invariant (btnRefresh_click listDir lc s)
          = (path l = navigationHistory s ! nat (historyIndex s))"
    if "cursor_in_range s" "listDir (Some (currentPath s)) = Resolved l"
    using that refresh_nav [where listDir = listDir and s = s and l = l and lc = lc]
    by (auto simp: nav_invariant_def cursor_in_range_def cursor_at_current_def js_index_def)
  have replay: "cursor_in_range (btnBack_click listDir lc s)
      \<and> nav_invariant (btnBack_click listDir lc s)
          = (path l = navigationHistory s ! nat (historyIndex s - 1))"
    if "cursor_in_range s" "0 < historyIndex s"
      "listDir (Some (navigationHistory s ! nat (historyIndex s - 1))) = Resolved l"
  proof -
    from that(1,2) have "js_index (navigationHistory s) (historyIndex s - 1)
        = Some (navigationHistory s ! nat (historyIndex s - 1))"
      by (simp add: js_index_def cursor_in_range_def)
    with that(3) have "listDir (js_index (navigationHistory s) (historyIndex s - 1)) = Resolved l"
      by simp
    from back_nav [where listDir = listDir and s = s and l = l and lc = lc, OF that(2) this]
      that(1,2) show ?thesis
      by (auto simp: nav_invariant_def cursor_in_range_def cursor_at_current_def js_index_def)
  qed
  show ?thesis
    using recording [of p] recording [of "Some (parent_of (currentPath s))"]
      recording [of "Some home"] refresh replay
    by (simp add: btnUp_click_def btnHome_click_def)
qed

text \<open>
  The five operations from the history \<^verbatim>\<open>/a /b\<close> with the cursor on \<^verbatim>\<open>/b\<close>, the tool
  reporting each requested path unchanged.
\<close>

theorem committed_navigation_invariant_witness:
  "nav_invariant (loadDirectory (tool_reports \<lparr> path = ''/c'', entries = [] \<rparr>) code_unit_compare
       (Some ''/c'') True (at_history [''/a'', ''/b''] 1 ''/b''))
   \<and> nav_invariant (btnUp_click (tool_reports \<lparr> path = ''/'', entries = [] \<rparr>) code_unit_compare
       (at_history [''/a'', ''/b''] 1 ''/b''))
   \<and> nav_invariant (btnHome_click (tool_reports \<lparr> path = ''/home/u'', entries = [] \<rparr>)
       code_unit_compare ''/home/u'' (at_history [''/a'', ''/b''] 1 ''/b''))
   \<and> nav_invariant (btnRefresh_click (tool_reports \<lparr> path = ''/b'', entries = [] \<rparr>)
       code_unit_compare (at_history [''/a'', ''/b''] 1 ''/b''))
   \<and> nav_invariant (btnBack_click (tool_reports \<lparr> path = ''/a'', entries = [] \<rparr>)
       code_unit_compare (at_history [''/a'', ''/b''] 1 ''/b''))"
proof -
  let ?s = "at_history [''/a'', ''/b''] 1 ''/b''"
  have range: "cursor_in_range ?s"
    by (simp add: cursor_in_range_def at_history_def)
  have navigate: "nav_invariant (loadDirectory (tool_reports \<lparr> path = ''/c'', entries = [] \<rparr>)
      code_unit_compare (Some ''/c'') True ?s)"
    using committed_navigation_invariant
      [where listDir = "tool_reports \<lparr> path = ''/c'', entries = [] \<rparr>" and p = "Some ''/c''"
        and l = "\<lparr> path = ''/c'', entries = [] \<rparr>" and lc = code_unit_compare and s = ?s]
    by (simp add: tool_reports_def)
  have up: "nav_invariant (btnUp_click (tool_reports \<lparr> path = ''/'', entries = [] \<rparr>)
      code_unit_compare ?s)"
    using committed_navigation_invariant
      [where listDir = "tool_reports \<lparr> path = ''/'', entries = [] \<rparr>"
        and l = "\<lparr> path = ''/'', entries = [] \<rparr>" and lc = code_unit_compare and s = ?s]
    by (simp add: tool_reports_def)
  have home: "nav_invariant (btnHome_click (tool_reports \<lparr> path = ''/home/u'', entries = [] \<rparr>)
      code_unit_compare ''/home/u'' ?s)"
    using committed_navigation_invariant
      [where listDir = "tool_reports \<lparr> path = ''/home/u'', entries = [] \<rparr>"
        and l = "\<lparr> path = ''/home/u'', entries = [] \<rparr>" and lc = code_unit_compare and s = ?s
        and home = "''/home/u''"]
    by (simp add: tool_reports_def)
  have refresh: "nav_invariant (btnRefresh_click (tool_reports \<lparr> path = ''/b'', entries = [] \<rparr>)
      code_unit_compare ?s)"
    using range committed_navigation_invariant
      [where listDir = "tool_reports \<lparr> path = ''/b'', entries = [] \<rparr>"
        and l = "\<lparr> path = ''/b'', entries = [] \<rparr>" and lc = code_unit_compare and s = ?s]
    by (simp add: tool_reports_def at_history_def)
  have replay: "nav_invariant (btnBack_click (tool_reports \<lparr> path = ''/a'', entries = [] \<rparr>)
      code_unit_compare ?s)"
    using range committed_navigation_invariant
      [where listDir = "tool_reports \<lparr> path = ''/a'', entries = [] \<rparr>"
        and l = "\<lparr> path = ''/a'', entries = [] \<rparr>" and lc = code_unit_compare and s = ?s]
    by (simp add: tool_reports_def at_history_def)
  from navigate up home refresh replay show ?thesis by simp
qed

text \<open>
  C4, as the claim states it, holds after every committed operation, replays
  included. A refresh of \<^verbatim>\<open>/srv/current\<close> for which the tool reports
  \<^verbatim>\<open>/srv/releases/2\<close> starts from a state that satisfies the invariant and ends in one
  where the history entry at the cursor is no longer the current path.
\<close>

theorem refresh_breaks_invariant:
  "nav_invariant (at_history [''/srv/current''] 0 ''/srv/current'')
   \<and> \<not> nav_invariant
        (btnRefresh_click (tool_reports \<lparr> path = ''/srv/releases/2'', entries = [] \<rparr>)
           code_unit_compare (at_history [''/srv/current''] 0 ''/srv/current''))"
  by (simp add: nav_invariant_def cursor_in_range_def cursor_at_current_def js_index_def
      at_history_def btnRefresh_click_def loadDirectory_def tool_reports_def)

text \<open>
  C8. \<^verbatim>\<open>localeCompare\<close> being a consistent comparison, as a collation is: after a
  successful load of a listing, the container shows its entries, all of them, and for
  any two positions \<open>i < j\<close> of the display, if the later entry is a directory then so
  is the earlier one, whatever the names are; and if the two entries have the same
  type, their names are in the order of \<^verbatim>\<open>localeCompare\<close>.
\<close>

theorem display_order:
  assumes "consistent_compare lc"
    and "listDir p = Resolved l" "i < j" "j < length (entries l)"
  shows "container (loadDirectory listDir lc p addToHistory s)
           = Tree (array_sort (compare_entries lc) (entries l))
       \<and> mset (array_sort (compare_entries lc) (entries l)) = mset (entries l)
       \<and> (e_type (array_sort (compare_entries lc) (entries l) ! j) = Directory \<longrightarrow>
            e_type (array_sort (compare_entries lc) (entries l) ! i) = Directory)
       \<and> (e_type (array_sort (compare_entries lc) (entries l) ! i)
            = e_type (array_sort (compare_entries lc) (entries l) ! j) \<longrightarrow>
            lc (e_name (array_sort (compare_entries lc) (entries l) ! i))
               (e_name (array_sort (compare_entries lc) (entries l) ! j)) \<le> 0)"
proof -
  let ?shown = "array_sort (compare_entries lc) (entries l)"
  from assms(3,4) have nonempty: "entries l \<noteq> []" by auto
  from assms(3,4) have ij: "i < j" "j < length ?shown" by (simp_all add: length_array_sort)
  have shown: "container (loadDirectory listDir lc p addToHistory s) = Tree ?shown"
    using assms(2) nonempty by (simp add: load_resolved)
  from assms(1) have "sorted_wrt (\<lambda>a b. compare_entries lc a b \<le> 0) ?shown"
    by (simp add: consistent_compare_entries sorted_array_sort)
  with ij have ordered: "compare_entries lc (?shown ! i) (?shown ! j) \<le> 0"
    by (simp add: sorted_wrt_iff_nth_less)
  have dirs: "e_type (?shown ! j) = Directory \<longrightarrow> e_type (?shown ! i) = Directory"
    using ordered by (auto simp: compare_entries_def split: if_splits)
  have names: "lc (e_name (?shown ! i)) (e_name (?shown ! j)) \<le> 0"
    if "e_type (?shown ! i) = e_type (?shown ! j)"
    using ordered that by (simp add: compare_entries_def split: if_splits)
  from shown dirs names show ?thesis by (simp add: mset_array_sort)
qed

text \<open>
  A listing of \<^verbatim>\<open>/home/u\<close> with two files and a directory, under code-unit order.
\<close>

theorem display_order_witness:
  "consistent_compare code_unit_compare
   \<and> container (loadDirectory
        (tool_reports \<lparr> path = ''/home/u'',
           entries = [file_entry ''b.txt'' 10, dir_entry ''a'', file_entry ''a.txt'' 3] \<rparr>)
        code_unit_compare (Some ''/home/u'') True (at_history [] (- 1) ''/''))
      = Tree [dir_entry ''a'', file_entry ''a.txt'' 3, file_entry ''b.txt'' 10]
   \<and> code_unit_compare ''a.txt'' ''b.txt'' \<le> 0"
proof -
  let ?l = "\<lparr> path = ''/home/u'',
           entries = [file_entry ''b.txt'' 10, dir_entry ''a'', file_entry ''a.txt'' 3] \<rparr>"
  from display_order [where listDir = "tool_reports ?l" and p = "Some ''/home/u''" and l = ?l
      and i = 1 and j = 2 and lc = code_unit_compare and addToHistory = True
      and s = "at_history [] (- 1) ''/''"]
    consistent_code_unit
  show ?thesis
    by (simp add: tool_reports_def sort_three_entries entry_fixture_simps)
qed

end
